theory Spec2Isabelle
  imports Main
begin

section \<open>The language-client wrapper (packages/monaco-editor-wrapper/src/wrapper.ts)\<close>

text \<open>
  The wrapper class \<^verbatim>\<open>MonacoEditorLanguageClientWrapper\<close> is embedded as a record of its
  private fields together with the part of the outside world its methods act on: a trace of
  the calls made on foreign objects (workers, sockets, the language client, the editor app,
  the console), a counter that hands out fresh object identities, the page-wide flag read by
  \<^verbatim>\<open>wasVscodeApiInitialized()\<close>, and the \<^verbatim>\<open>onClose\<close> listeners registered on message readers.
  Every method takes the state and returns the new one; an \<^verbatim>\<open>async\<close> method also returns how
  its promise settles.
\<close>

subsection \<open>Promises and exceptions\<close>

text \<open>
  \<^verbatim>\<open>Promise.reject('text')\<close> rejects with a string, \<^verbatim>\<open>throw new Error('text')\<close> raises an
  Error object. A promise is resolved, rejected or still pending; \<open>Thrown\<close> is the result of
  a call that raises before it returns anything (possible only for a function that is not
  \<^verbatim>\<open>async\<close>).
\<close>

datatype reason = Message string | Error string

datatype 'a completion = Resolved 'a | Rejected reason | Thrown reason | Pending

text \<open>
  \<^verbatim>\<open>await p\<close> inside an \<^verbatim>\<open>async\<close> function whose body has no \<^verbatim>\<open>catch\<close> around it: the rest of
  the body runs when \<open>p\<close> is fulfilled, the function's own promise is rejected with the same
  reason when \<open>p\<close> is rejected, and it stays pending as long as \<open>p\<close> does.
\<close>

definition await :: "'a completion \<times> 's \<Rightarrow> ('a \<Rightarrow> 's \<Rightarrow> 'b completion \<times> 's) \<Rightarrow> 'b completion \<times> 's" where
  "await p k =
     (case p of
        (Resolved v, s) \<Rightarrow> k v s
      | (Rejected r, s) \<Rightarrow> (Rejected r, s)
      | (Thrown r, s) \<Rightarrow> (Rejected r, s)
      | (Pending, s) \<Rightarrow> (Pending, s))"

text \<open>
  Calling \<^verbatim>\<open>resolve\<close> or \<^verbatim>\<open>reject\<close> of a \<^verbatim>\<open>new Promise\<close>: only the first call settles the
  promise, later calls are ignored.
\<close>

definition settle :: "'a completion \<Rightarrow> 'a completion \<Rightarrow> 'a completion" where
  "settle new cur = (case cur of Pending \<Rightarrow> new | _ \<Rightarrow> cur)"

text \<open>JavaScript truthiness of an optional string: \<^verbatim>\<open>undefined\<close> and \<^verbatim>\<open>''\<close> are falsy.\<close>

definition truthy :: "string option \<Rightarrow> bool" where
  "truthy v = (case v of None \<Rightarrow> False | Some x \<Rightarrow> x \<noteq> [])"

subsection \<open>Configuration types\<close>

datatype Worker = Worker nat

datatype WorkerType = Classic | Module

record WebSocketCallOptions =
  onCall :: nat
  reportStatusFlag :: "bool option"

datatype LanguageClientOptions =
    WebSocket bool string "nat option" "string option"
      "WebSocketCallOptions option" "WebSocketCallOptions option"
  | WebSocketUrl string "WebSocketCallOptions option" "WebSocketCallOptions option"
  | WorkerConfig string WorkerType "string option"
  | WorkerDirect Worker

record LanguageClientConfig =
  lc_options :: LanguageClientOptions
  initializationOptions :: "string option"

record InitializeServiceConfig =
  enableModelService :: "bool option"
  configureEditorOrViewsServiceConfig :: "unit option"
  configureConfigurationServiceConfig :: "string option"

datatype EditorAppType = ClassicApp | VscodeApiApp

text \<open>
  Of \<^verbatim>\<open>EditorAppConfigClassic | EditorAppConfigVscodeApi\<close> (declared in files outside this
  package's two sources) the wrapper reads \<^verbatim>\<open>useDiffEditor\<close>, \<^verbatim>\<open>codeOriginal\<close> and
  \<^verbatim>\<open>languageId\<close>; \<open>app_type\<close> is what \<^verbatim>\<open>isVscodeApiEditorApp\<close> tests.
\<close>

record EditorAppConfig =
  app_type :: EditorAppType
  app_languageId :: string
  app_useDiffEditor :: bool
  app_codeOriginal :: "string option"

record WrapperConfig =
  wc_serviceConfig :: "InitializeServiceConfig option"
  wc_editorAppConfig :: EditorAppConfig

record UserConfig =
  uc_id :: "string option"
  uc_htmlElement :: nat
  uc_wrapperConfig :: WrapperConfig
  uc_languageClientConfig :: "LanguageClientConfig option"

subsection \<open>Foreign objects\<close>

datatype Channel = SocketChannel nat | WorkerChannel Worker

record MessageTransports =
  readerId :: nat
  channel :: Channel

record MonacoLanguageClient =
  clientId :: nat
  running :: bool
  documentSelector :: "string list"
  clientInitializationOptions :: "string option"
  transports :: MessageTransports

record EditorApp =
  appId :: string
  appConfig :: EditorAppConfig
  appEditor :: "nat option"
  appDiffEditor :: "nat option"

datatype event =
    DisposeEditor
  | DisposeDiffEditor
  | NewEditorApp EditorAppType string
  | InitServices InitializeServiceConfig
  | EditorAppInit
  | CreateEditors nat
  | NewWebSocket nat LanguageClientOptions
  | NewWebSocketMessageReader nat nat
  | NewWebSocketMessageWriter nat
  | NewWorker Worker string WorkerType "string option"
  | NewBrowserMessageReader nat Worker
  | NewBrowserMessageWriter Worker
  | NewMonacoLanguageClient nat
  | ClientStart nat
  | ClientStop nat
  | ClientDispose nat
  | WorkerTerminate Worker
  | OnCall nat
  | ConsoleLog string

text \<open>
  What the foreign calls of one method invocation do: the value of \<^verbatim>\<open>Math.random() * 101\<close>
  rounded down, whether the socket ever fires \<^verbatim>\<open>onopen\<close>, and for each awaited foreign
  promise the text of the error it rejects with, if it does.
\<close>

record env =
  random :: nat
  initServicesError :: "string option"
  editorAppInitError :: "string option"
  createEditorsError :: "string option"
  socketOpens :: bool
  startError :: "string option"
  stopError :: "string option"
  disposeError :: "string option"

subsection \<open>The wrapper's state\<close>

record wrapper =
  languageClient :: "MonacoLanguageClient option"
  worker :: "Worker option"
  editorApp :: "EditorApp option"
  wrapperId :: string
  htmlElement :: nat
  serviceConfig :: InitializeServiceConfig
  languageClientConfig :: "LanguageClientConfig option"
  trace :: "event list"
  fresh :: nat
  vscodeApiInitialized :: bool
  onCloseHandlers :: "(nat \<times> LanguageClientOptions option) list"

definition emit :: "event \<Rightarrow> wrapper \<Rightarrow> wrapper" where
  "emit e s = s\<lparr>trace := trace s @ [e]\<rparr>"

definition isRunning :: "MonacoLanguageClient option \<Rightarrow> bool" where
  "isRunning lc = (case lc of None \<Rightarrow> False | Some c \<Rightarrow> running c)"

subsection \<open>init and start\<close>

definition digit :: "nat \<Rightarrow> char" where
  "digit n = char_of (48 + n)"

fun toString :: "nat \<Rightarrow> string" where
  "toString n = (if n < 10 then [digit n] else toString (n div 10) @ [digit (n mod 10)])"

declare toString.simps [simp del]

definition init :: "env \<Rightarrow> UserConfig \<Rightarrow> wrapper \<Rightarrow> reason + wrapper" where
  "init e userConfig s =
     (let appCfg = wc_editorAppConfig (uc_wrapperConfig userConfig) in
      if app_useDiffEditor appCfg \<and> \<not> truthy (app_codeOriginal appCfg)
      then Inl (Error ''Use diff editor was used without a valid config.'')
      else
        let s1 = s\<lparr>wrapperId := (case uc_id userConfig of Some i \<Rightarrow> i | None \<Rightarrow> toString (random e)),
                   htmlElement := uc_htmlElement userConfig\<rparr>;
            s2 = (case uc_languageClientConfig userConfig of
                    Some c \<Rightarrow> s1\<lparr>languageClientConfig := Some c\<rparr>
                  | None \<Rightarrow> s1);
            sc = (case wc_serviceConfig (uc_wrapperConfig userConfig) of
                    Some c \<Rightarrow> c
                  | None \<Rightarrow> \<lparr>enableModelService = None,
                              configureEditorOrViewsServiceConfig = None,
                              configureConfigurationServiceConfig = None\<rparr>);
            sc1 = sc\<lparr>enableModelService :=
                       Some (case enableModelService sc of Some b \<Rightarrow> b | None \<Rightarrow> True)\<rparr>;
            sc2 = sc1\<lparr>configureEditorOrViewsServiceConfig :=
                       Some (case configureEditorOrViewsServiceConfig sc1 of Some u \<Rightarrow> u | None \<Rightarrow> ())\<rparr>;
            sc3 = sc2\<lparr>configureConfigurationServiceConfig :=
                       Some (case configureConfigurationServiceConfig sc2 of
                               Some u \<Rightarrow> u | None \<Rightarrow> ''/tmp/'')\<rparr>
        in Inr (s2\<lparr>serviceConfig := sc3\<rparr>))"

text \<open>
  Modelled from the spec: \<^verbatim>\<open>disposeEditor\<close> of the editor app classes \<^verbatim>\<open>EditorAppClassic\<close>
  and \<^verbatim>\<open>EditorAppVscodeApi\<close> (editorClassic.ts, editorVscodeApi.ts), which are not among the
  sources. The spec's contract: it releases the editor resources. The optional call
  \<^verbatim>\<open>this.editorApp?.disposeEditor()\<close> does nothing when there is no editor app.
\<close>

definition disposeEditor :: "wrapper \<Rightarrow> wrapper" where
  "disposeEditor s =
     (case editorApp s of
        None \<Rightarrow> s
      | Some app \<Rightarrow> emit DisposeEditor (s\<lparr>editorApp := Some (app\<lparr>appEditor := None\<rparr>)\<rparr>))"

text \<open>
  Modelled from the spec: \<^verbatim>\<open>disposeDiffEditor\<close> of the absent editor app classes; it
  releases the diff editor resources.
\<close>

definition disposeDiffEditor :: "wrapper \<Rightarrow> wrapper" where
  "disposeDiffEditor s =
     (case editorApp s of
        None \<Rightarrow> s
      | Some app \<Rightarrow> emit DisposeDiffEditor (s\<lparr>editorApp := Some (app\<lparr>appDiffEditor := None\<rparr>)\<rparr>))"

text \<open>
  Modelled from the spec: the constructors of the absent editor app classes, called with the
  wrapper's id and the user configuration; the new app owns no editor yet. Which class is
  built is decided by \<^verbatim>\<open>isVscodeApiEditorApp\<close>, here the field \<open>app_type\<close>.
\<close>

definition newEditorApp :: "UserConfig \<Rightarrow> wrapper \<Rightarrow> wrapper" where
  "newEditorApp userConfig s =
     (let cfg = wc_editorAppConfig (uc_wrapperConfig userConfig) in
      emit (NewEditorApp (app_type cfg) (wrapperId s))
        (s\<lparr>editorApp := Some \<lparr>appId = wrapperId s, appConfig = cfg,
                               appEditor = None, appDiffEditor = None\<rparr>\<rparr>))"

text \<open>
  \<^verbatim>\<open>initServices\<close> and \<^verbatim>\<open>wasVscodeApiInitialized\<close> belong to the monaco-languageclient
  library: a successful \<^verbatim>\<open>initServices\<close> sets the flag that \<^verbatim>\<open>wasVscodeApiInitialized\<close> reads.
\<close>

definition initServices :: "env \<Rightarrow> wrapper \<Rightarrow> string completion \<times> wrapper" where
  "initServices e s =
     (case initServicesError e of
        None \<Rightarrow> (Resolved [], (emit (InitServices (serviceConfig s)) s)\<lparr>vscodeApiInitialized := True\<rparr>)
      | Some err \<Rightarrow> (Rejected (Error err), emit (InitServices (serviceConfig s)) s))"

text \<open>
  Modelled from the spec: \<^verbatim>\<open>init()\<close> of the absent editor app classes, the service bootstrap
  of the app; it may fail.
\<close>

definition editorAppInit :: "env \<Rightarrow> wrapper \<Rightarrow> unit completion \<times> wrapper" where
  "editorAppInit e s =
     (case editorAppInitError e of
        None \<Rightarrow> (Resolved (), emit EditorAppInit s)
      | Some err \<Rightarrow> (Rejected (Error err), emit EditorAppInit s))"

text \<open>
  Modelled from the spec: \<^verbatim>\<open>createEditors(container)\<close> of the absent editor app classes; it
  creates the editor, or the diff editor in diff mode, inside the container, and may fail.
\<close>

definition createEditors :: "env \<Rightarrow> wrapper \<Rightarrow> unit completion \<times> wrapper" where
  "createEditors e s =
     (case editorApp s of
        None \<Rightarrow> (Rejected (Error ''TypeError''), s)
      | Some app \<Rightarrow>
          (case createEditorsError e of
             Some err \<Rightarrow> (Rejected (Error err), emit (CreateEditors (htmlElement s)) s)
           | None \<Rightarrow>
               let app1 = (if app_useDiffEditor (appConfig app)
                           then app\<lparr>appDiffEditor := Some (fresh s)\<rparr>
                           else app\<lparr>appEditor := Some (fresh s)\<rparr>)
               in (Resolved (),
                   emit (CreateEditors (htmlElement s))
                     (s\<lparr>editorApp := Some app1, fresh := Suc (fresh s)\<rparr>))))"

subsection \<open>reportStatus\<close>

definition render :: "'a option \<Rightarrow> string \<Rightarrow> string" where
  "render v tag = (case v of None \<Rightarrow> ''undefined'' | Some _ \<Rightarrow> tag)"

definition getEditor :: "wrapper \<Rightarrow> nat option" where
  "getEditor s = (case editorApp s of None \<Rightarrow> None | Some app \<Rightarrow> appEditor app)"

definition getDiffEditor :: "wrapper \<Rightarrow> nat option" where
  "getDiffEditor s = (case editorApp s of None \<Rightarrow> None | Some app \<Rightarrow> appDiffEditor app)"

definition reportStatus :: "wrapper \<Rightarrow> string list" where
  "reportStatus s =
     [''Wrapper status:'',
      ''Editor: '' @ render (getEditor s) ''[object Object]'',
      ''DiffEditor: '' @ render (getDiffEditor s) ''[object Object]'',
      ''LanguageClient: '' @ render (languageClient s) ''[object Object]'',
      ''Worker: '' @ render (worker s) ''[object Worker]'']"

fun join :: "string list \<Rightarrow> string \<Rightarrow> string" where
  "join [] sep = []"
| "join [x] sep = x"
| "join (x # y # ys) sep = x @ sep @ join (y # ys) sep"

text \<open>
  The body shared by the \<^verbatim>\<open>startOptions\<close> and \<^verbatim>\<open>stopOptions\<close> branches: call the hook, then
  log the status when \<^verbatim>\<open>reportStatus\<close> is truthy. The hook is the caller's function; it is
  taken to return.
\<close>

definition callOptions :: "WebSocketCallOptions \<Rightarrow> wrapper \<Rightarrow> wrapper" where
  "callOptions opts s =
     (let s1 = emit (OnCall (onCall opts)) s in
      if reportStatusFlag opts = Some True
      then emit (ConsoleLog (join (reportStatus s1) [CHR 0x0A])) s1
      else s1)"

text \<open>
  \<^verbatim>\<open>(configType === 'WebSocket' || configType === 'WebSocketUrl') && lcConfig?.startOptions\<close>
  and the same test for \<^verbatim>\<open>stopOptions\<close>.
\<close>

definition socketStartOptions :: "LanguageClientOptions option \<Rightarrow> WebSocketCallOptions option" where
  "socketStartOptions lcConfig =
     (case lcConfig of
        Some (WebSocket _ _ _ _ startOpts _) \<Rightarrow> startOpts
      | Some (WebSocketUrl _ startOpts _) \<Rightarrow> startOpts
      | _ \<Rightarrow> None)"

definition socketStopOptions :: "LanguageClientOptions option \<Rightarrow> WebSocketCallOptions option" where
  "socketStopOptions lcConfig =
     (case lcConfig of
        Some (WebSocket _ _ _ _ _ stopOpts) \<Rightarrow> stopOpts
      | Some (WebSocketUrl _ _ stopOpts) \<Rightarrow> stopOpts
      | _ \<Rightarrow> None)"

subsection \<open>Creating and starting the language client\<close>

text \<open>
  \<^verbatim>\<open>this.editorApp!.getAppConfig()\<close> raises a TypeError when no editor app exists: the
  result is then \<open>None\<close>.
\<close>

definition createLanguageClient :: "MessageTransports \<Rightarrow> wrapper \<Rightarrow> (MonacoLanguageClient \<times> wrapper) option" where
  "createLanguageClient mt s =
     (case editorApp s of
        None \<Rightarrow> None
      | Some app \<Rightarrow>
          Some (\<lparr>clientId = fresh s, running = False,
                  documentSelector = [app_languageId (appConfig app)],
                  clientInitializationOptions =
                    (case languageClientConfig s of None \<Rightarrow> None | Some c \<Rightarrow> initializationOptions c),
                  transports = mt\<rparr>,
                (emit (NewMonacoLanguageClient (fresh s)) s)\<lparr>fresh := Suc (fresh s)\<rparr>))"

text \<open>
  The listener given to \<^verbatim>\<open>messageTransports.reader.onClose\<close>. It closes over \<^verbatim>\<open>lcConfig\<close>,
  read when the listener was registered, and reads \<^verbatim>\<open>this.languageClient\<close> when it runs.
\<close>

definition clientStop :: "env \<Rightarrow> MonacoLanguageClient \<Rightarrow> wrapper \<Rightarrow> unit completion \<times> wrapper" where
  "clientStop e c s =
     (case stopError e of
        None \<Rightarrow> (Resolved (), (emit (ClientStop (clientId c)) s)\<lparr>languageClient := Some (c\<lparr>running := False\<rparr>)\<rparr>)
      | Some err \<Rightarrow> (Rejected (Error err), emit (ClientStop (clientId c)) s))"

definition onCloseHandler :: "env \<Rightarrow> LanguageClientOptions option \<Rightarrow> wrapper \<Rightarrow> unit completion \<times> wrapper" where
  "onCloseHandler e lcConfig s =
     await (case languageClient s of None \<Rightarrow> (Resolved (), s) | Some c \<Rightarrow> clientStop e c s)
       (\<lambda>_ s1. (Resolved (),
                 (case socketStopOptions lcConfig of
                    Some stopOptions \<Rightarrow> callOptions stopOptions s1
                  | None \<Rightarrow> s1)))"

text \<open>The reader with identity \<open>r\<close> fires its close event: its registered listener runs.\<close>

definition readerClose :: "env \<Rightarrow> nat \<Rightarrow> wrapper \<Rightarrow> unit completion \<times> wrapper" where
  "readerClose e r s =
     (case map_of (onCloseHandlers s) r of
        None \<Rightarrow> (Resolved (), s)
      | Some lcConfig \<Rightarrow> onCloseHandler e lcConfig s)"

text \<open>
  \<^verbatim>\<open>handleLanguageClientStart\<close> is given \<^verbatim>\<open>resolve\<close> and \<^verbatim>\<open>reject\<close> of the promise made by
  \<^verbatim>\<open>startLanguageClientConnection\<close>; the completion returned here is the state of that
  promise when the body has run. After the \<^verbatim>\<open>catch\<close> block has called \<^verbatim>\<open>reject\<close> the body
  still reaches \<^verbatim>\<open>resolve(msg)\<close>, which a settled promise ignores.
\<close>

definition handleLanguageClientStart :: "env \<Rightarrow> MessageTransports \<Rightarrow> wrapper \<Rightarrow> string completion \<times> wrapper" where
  "handleLanguageClientStart e mt s =
     (case createLanguageClient mt s of
        None \<Rightarrow> (Pending, s)
      | Some (c, s0) \<Rightarrow>
          let s1 = s0\<lparr>languageClient := Some c\<rparr>;
              lcConfig = map_option lc_options (languageClientConfig s1);
              s2 = s1\<lparr>onCloseHandlers := (readerId mt, lcConfig) # onCloseHandlers s1\<rparr>;
              s3 = emit (ClientStart (clientId c)) s2;
              msg = ''monaco-languageclient was successfully started.''
          in (case startError e of
                None \<Rightarrow>
                  let s4 = s3\<lparr>languageClient := Some (c\<lparr>running := True\<rparr>)\<rparr>;
                      s5 = (case socketStartOptions lcConfig of
                              Some startOptions \<Rightarrow> callOptions startOptions s4
                            | None \<Rightarrow> s4)
                  in (settle (Resolved msg) Pending, s5)
              | Some err \<Rightarrow>
                  let errorMsg = ''monaco-languageclient start was unsuccessful: '' @ err
                  in (settle (Resolved msg) (settle (Rejected (Message errorMsg)) Pending), s3)))"

text \<open>
  The two branches of the promise executor in \<^verbatim>\<open>startLanguageClientConnection\<close>. The socket
  branch creates the socket and goes on only when \<^verbatim>\<open>onopen\<close> fires; until then the promise is
  pending. The URL that \<^verbatim>\<open>createUrl\<close> (utils.ts, absent) builds is a function of the
  configuration, which the event \<open>NewWebSocket\<close> records in its place. The worker branch
  reads \<^verbatim>\<open>this.worker\<close> after the caller has filled it in.
\<close>

definition socketConnection :: "env \<Rightarrow> LanguageClientOptions \<Rightarrow> wrapper \<Rightarrow> string completion \<times> wrapper" where
  "socketConnection e lcConfig s =
     (let webSocket = fresh s;
          s1 = (emit (NewWebSocket webSocket lcConfig) s)\<lparr>fresh := Suc (fresh s)\<rparr>
      in if socketOpens e
         then let r = fresh s1;
                  s2 = emit (NewWebSocketMessageWriter webSocket)
                         ((emit (NewWebSocketMessageReader r webSocket) s1)\<lparr>fresh := Suc (fresh s1)\<rparr>)
              in handleLanguageClientStart e \<lparr>readerId = r, channel = SocketChannel webSocket\<rparr> s2
         else (Pending, s1))"

definition workerConnection :: "env \<Rightarrow> wrapper \<Rightarrow> string completion \<times> wrapper" where
  "workerConnection e s =
     (case worker s of
        None \<Rightarrow> (Rejected (Error ''TypeError''), s)
      | Some w \<Rightarrow>
          let r = fresh s;
              s1 = emit (NewBrowserMessageWriter w)
                     ((emit (NewBrowserMessageReader r w) s)\<lparr>fresh := Suc (fresh s)\<rparr>)
          in handleLanguageClientStart e \<lparr>readerId = r, channel = WorkerChannel w\<rparr> s1)"

text \<open>
  With no language-client configuration at all and no worker, the cast
  \<^verbatim>\<open>lcConfig as WorkerConfigDirect\<close> is followed by a property read on \<^verbatim>\<open>undefined\<close>; the
  TypeError raised inside the executor rejects the promise.
\<close>

definition startLanguageClientConnection :: "env \<Rightarrow> wrapper \<Rightarrow> string completion \<times> wrapper" where
  "startLanguageClientConnection e s =
     (if isRunning (languageClient s)
      then (Resolved ''monaco-languageclient already running!'', s)
      else
        (case map_option lc_options (languageClientConfig s) of
           Some (WebSocket secured host port path startOpts stopOpts) \<Rightarrow>
             socketConnection e (WebSocket secured host port path startOpts stopOpts) s
         | Some (WebSocketUrl url startOpts stopOpts) \<Rightarrow>
             socketConnection e (WebSocketUrl url startOpts stopOpts) s
         | Some (WorkerConfig url ty name) \<Rightarrow>
             workerConnection e
               (if worker s = None
                then (emit (NewWorker (Worker (fresh s)) url ty name) s)
                       \<lparr>worker := Some (Worker (fresh s)), fresh := Suc (fresh s)\<rparr>
                else s)
         | Some (WorkerDirect w) \<Rightarrow>
             workerConnection e (if worker s = None then s\<lparr>worker := Some w\<rparr> else s)
         | None \<Rightarrow> workerConnection e s))"

definition start :: "env \<Rightarrow> UserConfig \<Rightarrow> wrapper \<Rightarrow> unit completion \<times> wrapper" where
  "start e userConfig s =
     (case init e userConfig s of
        Inl err \<Rightarrow> (Rejected err, s)
      | Inr s1 \<Rightarrow>
          let s2 = newEditorApp userConfig (disposeDiffEditor (disposeEditor s1)) in
          await (if vscodeApiInitialized s2
                 then (Resolved ''No service init on restart'', s2)
                 else initServices e s2)
            (\<lambda>_ s3. await (editorAppInit e s3)
              (\<lambda>_ s4. await (createEditors e s4)
                (\<lambda>_ s5.
                   if languageClientConfig s5 \<noteq> None
                   then await (startLanguageClientConnection e
                                 (emit (ConsoleLog ''Starting monaco-languageclient'') s5))
                          (\<lambda>_ s6. (Resolved (), s6))
                   else (Resolved (), s5)))))"

subsection \<open>Disposing and restarting the language client\<close>

definition disposeLanguageClient :: "env \<Rightarrow> bool option \<Rightarrow> wrapper \<Rightarrow> unit completion \<times> wrapper" where
  "disposeLanguageClient e keepWorker s =
     (case languageClient s of
        None \<Rightarrow> (Rejected (Message ''Unable to dispose monaco-languageclient: It is not yet started.''), s)
      | Some c \<Rightarrow>
          if running c then
            (case disposeError e of
               Some err \<Rightarrow>
                 (Rejected (Message (''Disposing the monaco-languageclient resulted in error: '' @ err)),
                  emit (ClientDispose (clientId c)) s)
             | None \<Rightarrow>
                 let s1 = emit (ClientDispose (clientId c)) s;
                     s2 = (if keepWorker = None \<or> keepWorker = Some False
                           then (case worker s1 of
                                   Some w \<Rightarrow> (emit (WorkerTerminate w) s1)\<lparr>worker := None\<rparr>
                                 | None \<Rightarrow> s1\<lparr>worker := None\<rparr>)
                           else s1)
                 in (Resolved (), s2\<lparr>languageClient := None\<rparr>))
          else (Rejected (Message ''Unable to dispose monaco-languageclient: It is not yet started.''), s))"

definition restartLanguageClient :: "env \<Rightarrow> Worker option \<Rightarrow> bool option \<Rightarrow> wrapper \<Rightarrow> unit completion \<times> wrapper" where
  "restartLanguageClient e updatedWorker keepWorker s =
     await (if updatedWorker \<noteq> None
            then disposeLanguageClient e (Some False) s
            else disposeLanguageClient e keepWorker s)
       (\<lambda>_ s1.
          let s2 = s1\<lparr>worker := updatedWorker\<rparr> in
          if languageClientConfig s2 \<noteq> None
          then await (startLanguageClientConnection e
                        (emit (ConsoleLog ''Re-Starting monaco-languageclient'') s2))
                 (\<lambda>_ s3. (Resolved (), s3))
          else (Rejected (Message ''Unable to restart languageclient. No configuration was provided.''), s2))"

definition dispose :: "env \<Rightarrow> wrapper \<Rightarrow> unit completion \<times> wrapper" where
  "dispose e s =
     (let s1 = disposeDiffEditor (disposeEditor s) in
      if languageClientConfig s1 \<noteq> None
      then await (disposeLanguageClient e (Some False) s1)
             (\<lambda>_ s2. (Resolved (), s2\<lparr>editorApp := None\<rparr>))
      else (Resolved (), s1))"

section \<open>The web component (packages/monaco-editor-comp/src/main.ts)\<close>

subsection \<open>Inline configuration records and the window\<close>

text \<open>
  An inline-config function returns a \<^verbatim>\<open>Record<string, unknown>\<close>; the component reads the
  five fields below and casts each to \<^verbatim>\<open>string\<close>, so they are kept at that type
  (\<open>None\<close> for an absent field).
\<close>

record Options =
  opt_code :: "string option"
  opt_languageId :: "string option"
  opt_modifiedCode :: "string option"
  opt_modifiedLanguageId :: "string option"
  opt_theme :: "string option"

text \<open>
  An own property of \<^verbatim>\<open>window\<close> is a function (given by what it returns when called, \<open>None\<close>
  for \<^verbatim>\<open>undefined\<close>) or a value of another type.
\<close>

datatype WindowValue = Function "Options option" | NotAFunction

type_synonym window = "string \<Rightarrow> WindowValue option"

datatype Element = ScriptElement | OtherElement

datatype call = CallGlobal string | Log string

subsection \<open>The component's editor wrapper\<close>

text \<open>
  Modelled from the spec: the configuration object returned by \<^verbatim>\<open>getEditorConfig()\<close> of the
  class \<^verbatim>\<open>MonacoWrapper\<close> (monaco-editor-comp/src/wrapper.ts), which is not among the sources.
  Following the spec it is a plain record (code text, language identifier, theme,
  original/modified pair) mutated in place. Its shape, \<^verbatim>\<open>codeOriginal[0]\<close>,
  \<^verbatim>\<open>codeOriginal[1]\<close>, \<^verbatim>\<open>codeModified[0]\<close>, \<^verbatim>\<open>codeModified[1]\<close>, \<^verbatim>\<open>theme\<close>,
  \<^verbatim>\<open>monacoEditorOptions\<close>, \<^verbatim>\<open>monacoDiffEditorOptions\<close>, is the one main.ts writes to.
\<close>

record EditorConfig =
  codeOriginal :: "string \<times> string"
  codeModified :: "string \<times> string"
  cfg_theme :: string
  monacoEditorOptions :: "Options option"
  monacoDiffEditorOptions :: "Options option"

text \<open>
  Modelled from the spec: the state of the absent class \<^verbatim>\<open>MonacoWrapper\<close>: the configuration
  with its diff-mode flag, the editor instance in use (an identity, \<open>None\<close> before the first
  start), how many instances have been created, and the updates pushed to the editor.
\<close>

datatype editorUpdate = ThemeUpdate string | FullUpdate

record MonacoWrapper =
  editorConfig :: EditorConfig
  cfg_useDiffEditor :: bool
  editorInstance :: "nat option"
  instancesCreated :: nat
  pushed :: "editorUpdate list"

text \<open>
  Modelled from the spec: \<^verbatim>\<open>setUseDiffEditor\<close> of the absent \<^verbatim>\<open>MonacoWrapper\<close> stores the
  diff-mode flag in the configuration.
\<close>

definition setUseDiffEditor :: "bool \<Rightarrow> MonacoWrapper \<Rightarrow> MonacoWrapper" where
  "setUseDiffEditor b w = w\<lparr>cfg_useDiffEditor := b\<rparr>"

text \<open>
  Modelled from the spec: \<^verbatim>\<open>updateTheme\<close> of the absent \<^verbatim>\<open>MonacoWrapper\<close> pushes a theme-only
  update (the configured theme) to the editor, without a full reload.
\<close>

definition updateTheme :: "MonacoWrapper \<Rightarrow> MonacoWrapper" where
  "updateTheme w = w\<lparr>pushed := pushed w @ [ThemeUpdate (cfg_theme (editorConfig w))]\<rparr>"

text \<open>
  Modelled from the spec: \<^verbatim>\<open>updateEditor\<close> of the absent \<^verbatim>\<open>MonacoWrapper\<close> applies the
  configuration to the existing editor.
\<close>

definition wrapperUpdateEditor :: "MonacoWrapper \<Rightarrow> MonacoWrapper" where
  "wrapperUpdateEditor w = w\<lparr>pushed := pushed w @ [FullUpdate]\<rparr>"

text \<open>
  Modelled from the spec: \<^verbatim>\<open>startEditor\<close> of the absent \<^verbatim>\<open>MonacoWrapper\<close> (re)creates the
  editor instance.
\<close>

definition wrapperStartEditor :: "MonacoWrapper \<Rightarrow> MonacoWrapper" where
  "wrapperStartEditor w =
     w\<lparr>editorInstance := Some (instancesCreated w), instancesCreated := Suc (instancesCreated w)\<rparr>"

text \<open>
  Modelled from the spec: \<^verbatim>\<open>swapEditors\<close> of the absent \<^verbatim>\<open>MonacoWrapper\<close> replaces the
  editor instance by one of the other mode.
\<close>

definition wrapperSwapEditors :: "MonacoWrapper \<Rightarrow> MonacoWrapper" where
  "wrapperSwapEditors w =
     w\<lparr>editorInstance := Some (instancesCreated w), instancesCreated := Suc (instancesCreated w)\<rparr>"

subsection \<open>The component\<close>

text \<open>
  The reflected properties of \<^verbatim>\<open>CodeEditor\<close>, the element's \<^verbatim>\<open>id\<close> and \<^verbatim>\<open>children\<close>, its
  wrapper, the number of listeners it has registered on the
  \<^verbatim>\<open>(prefers-color-scheme: dark)\<close> media query, and the calls it has made to global functions
  and the console.
\<close>

record CodeEditor =
  code :: string
  languageId :: string
  modifiedCode :: "string option"
  modifiedLanguageId :: "string option"
  theme :: string
  enableInlineConfig :: "bool option"
  useDiffEditor :: "bool option"
  elementId :: string
  children :: "Element list"
  monacoWrapper :: MonacoWrapper
  colorSchemeListeners :: nat
  calls :: "call list"

definition getEditorConfig :: "CodeEditor \<Rightarrow> EditorConfig" where
  "getEditorConfig x = editorConfig (monacoWrapper x)"

definition withEditorConfig :: "(EditorConfig \<Rightarrow> EditorConfig) \<Rightarrow> CodeEditor \<Rightarrow> CodeEditor" where
  "withEditorConfig f x =
     x\<lparr>monacoWrapper := (monacoWrapper x)\<lparr>editorConfig := f (editorConfig (monacoWrapper x))\<rparr>\<rparr>"

definition setCode :: "string \<Rightarrow> CodeEditor \<Rightarrow> CodeEditor" where
  "setCode c x =
     withEditorConfig (\<lambda>cfg. cfg\<lparr>codeOriginal := (c, snd (codeOriginal cfg))\<rparr>) (x\<lparr>code := c\<rparr>)"

definition setLanguageId :: "string \<Rightarrow> CodeEditor \<Rightarrow> CodeEditor" where
  "setLanguageId l x =
     withEditorConfig (\<lambda>cfg. cfg\<lparr>codeOriginal := (fst (codeOriginal cfg), l)\<rparr>) (x\<lparr>languageId := l\<rparr>)"

definition setModifiedCode :: "string \<Rightarrow> CodeEditor \<Rightarrow> CodeEditor" where
  "setModifiedCode c x =
     withEditorConfig (\<lambda>cfg. cfg\<lparr>codeModified := (c, snd (codeModified cfg))\<rparr>)
       (x\<lparr>modifiedCode := Some c\<rparr>)"

definition setModifiedLanguageId :: "string \<Rightarrow> CodeEditor \<Rightarrow> CodeEditor" where
  "setModifiedLanguageId l x =
     withEditorConfig (\<lambda>cfg. cfg\<lparr>codeModified := (fst (codeModified cfg), l)\<rparr>)
       (x\<lparr>modifiedLanguageId := Some l\<rparr>)"

definition setTheme :: "string \<Rightarrow> CodeEditor \<Rightarrow> CodeEditor" where
  "setTheme t x = withEditorConfig (\<lambda>cfg. cfg\<lparr>cfg_theme := t\<rparr>) (x\<lparr>theme := t\<rparr>)"

definition updateDiffEditorContent :: "string \<Rightarrow> string \<Rightarrow> string \<Rightarrow> string \<Rightarrow> CodeEditor \<Rightarrow> CodeEditor" where
  "updateDiffEditorContent c l mc ml x =
     setModifiedLanguageId ml (setModifiedCode mc (setLanguageId l (setCode c x)))"

definition isEnableInlineConfig :: "CodeEditor \<Rightarrow> bool" where
  "isEnableInlineConfig x =
     (case children x of
        [content] \<Rightarrow> content = ScriptElement \<and> enableInlineConfig x = Some True
      | _ \<Rightarrow> False)"

definition isFunction :: "WindowValue option \<Rightarrow> bool" where
  "isFunction v = (case v of Some (Function _) \<Rightarrow> True | _ \<Rightarrow> False)"

definition callFunction :: "window \<Rightarrow> string \<Rightarrow> string \<Rightarrow> CodeEditor \<Rightarrow> Options option \<times> CodeEditor" where
  "callFunction win name loggingName x =
     (case win name of
        Some (Function result) \<Rightarrow>
          (result,
           x\<lparr>calls := calls x @
               [Log (''Using config supplied by '' @ name @ '' for '' @ loggingName @ ''.''),
                CallGlobal name]\<rparr>)
      | _ \<Rightarrow> (None, x))"

definition buildAndCallConfigFunction :: "window \<Rightarrow> string \<Rightarrow> string \<Rightarrow> CodeEditor \<Rightarrow> Options option \<times> CodeEditor" where
  "buildAndCallConfigFunction win basename loggingName x =
     (let funcName = basename;
          funcNamePlusId = funcName @ elementId x
      in if isFunction (win funcName) then callFunction win funcName loggingName x
         else if isFunction (win funcNamePlusId) then callFunction win funcNamePlusId loggingName x
         else (None, x))"

definition setMonacoEditorOptions :: "Options option \<Rightarrow> CodeEditor \<Rightarrow> CodeEditor" where
  "setMonacoEditorOptions options x =
     (case options of
        None \<Rightarrow> x
      | Some opts \<Rightarrow>
          let x1 = (if truthy (opt_code opts) then setCode (the (opt_code opts)) x else x);
              x2 = (if truthy (opt_languageId opts) then setLanguageId (the (opt_languageId opts)) x1 else x1);
              x3 = (if truthy (opt_theme opts) then setTheme (the (opt_theme opts)) x2 else x2)
          in withEditorConfig (\<lambda>cfg. cfg\<lparr>monacoEditorOptions := Some opts\<rparr>) x3)"

definition setMonacoDiffEditorOptions :: "Options option \<Rightarrow> CodeEditor \<Rightarrow> CodeEditor" where
  "setMonacoDiffEditorOptions options x =
     (case options of
        None \<Rightarrow> x
      | Some opts \<Rightarrow>
          let x1 = (if truthy (opt_code opts) then setCode (the (opt_code opts)) x else x);
              x2 = (if truthy (opt_languageId opts) then setLanguageId (the (opt_languageId opts)) x1 else x1);
              x3 = (if truthy (opt_modifiedCode opts)
                    then setModifiedCode (the (opt_modifiedCode opts)) x2 else x2);
              x4 = (if truthy (opt_modifiedLanguageId opts)
                    then setModifiedLanguageId (the (opt_modifiedLanguageId opts)) x3 else x3);
              x5 = (if truthy (opt_theme opts) then setTheme (the (opt_theme opts)) x4 else x4)
          in withEditorConfig (\<lambda>cfg. cfg\<lparr>monacoDiffEditorOptions := Some opts\<rparr>) x5)"

definition retrieveMonacoEditorOptions :: "window \<Rightarrow> CodeEditor \<Rightarrow> CodeEditor" where
  "retrieveMonacoEditorOptions win x =
     (if \<not> isEnableInlineConfig x then x
      else case buildAndCallConfigFunction win ''getMonacoEditorOptions'' ''editor'' x of
             (options, x1) \<Rightarrow> setMonacoEditorOptions options x1)"

definition retrieveMonacoDiffEditorOptions :: "window \<Rightarrow> CodeEditor \<Rightarrow> CodeEditor" where
  "retrieveMonacoDiffEditorOptions win x =
     (if \<not> isEnableInlineConfig x then x
      else case buildAndCallConfigFunction win ''getMonacoDiffEditorOptions'' ''diff editor'' x of
             (options, x1) \<Rightarrow> setMonacoDiffEditorOptions options x1)"

definition loadInlineConfig :: "window \<Rightarrow> CodeEditor \<Rightarrow> CodeEditor" where
  "loadInlineConfig win x =
     (if isEnableInlineConfig x
      then retrieveMonacoDiffEditorOptions win (retrieveMonacoEditorOptions win x)
      else x)"

definition syncPropertiesAndEditorConfig :: "window \<Rightarrow> bool \<Rightarrow> CodeEditor \<Rightarrow> CodeEditor" where
  "syncPropertiesAndEditorConfig win reloadInlineConfig x =
     (let x1 = (if reloadInlineConfig then loadInlineConfig win x else x);
          x2 = withEditorConfig (\<lambda>cfg. cfg\<lparr>codeOriginal := (code x1, snd (codeOriginal cfg))\<rparr>) x1;
          x3 = withEditorConfig (\<lambda>cfg. cfg\<lparr>codeOriginal := (fst (codeOriginal cfg), languageId x2)\<rparr>) x2;
          x4 = (if truthy (modifiedCode x3)
                then withEditorConfig
                       (\<lambda>cfg. cfg\<lparr>codeModified := (the (modifiedCode x3), snd (codeModified cfg))\<rparr>) x3
                else x3);
          x5 = (if truthy (modifiedLanguageId x4)
                then withEditorConfig
                       (\<lambda>cfg. cfg\<lparr>codeModified := (fst (codeModified cfg), the (modifiedLanguageId x4))\<rparr>) x4
                else x4);
          x6 = withEditorConfig (\<lambda>cfg. cfg\<lparr>cfg_theme := theme x5\<rparr>) x5
      in x6\<lparr>monacoWrapper :=
              setUseDiffEditor (case useDiffEditor x6 of Some True \<Rightarrow> True | _ \<Rightarrow> False)
                (monacoWrapper x6)\<rparr>)"

text \<open>
  The listener that \<^verbatim>\<open>registerListeners\<close> adds for the \<^verbatim>\<open>change\<close> event of the media query;
  \<open>matches\<close> is \<^verbatim>\<open>e.matches\<close>. A change event runs every listener registered so far.
\<close>

definition colorSchemeListener :: "bool \<Rightarrow> CodeEditor \<Rightarrow> CodeEditor" where
  "colorSchemeListener matches x =
     (let x1 = setTheme (if matches then ''vs-dark'' else ''vs-light'') x
      in x1\<lparr>monacoWrapper := updateTheme (monacoWrapper x1)\<rparr>)"

definition registerListeners :: "CodeEditor \<Rightarrow> CodeEditor" where
  "registerListeners x = x\<lparr>colorSchemeListeners := Suc (colorSchemeListeners x)\<rparr>"

definition colorSchemeChange :: "bool \<Rightarrow> CodeEditor \<Rightarrow> CodeEditor" where
  "colorSchemeChange matches x = (colorSchemeListener matches ^^ colorSchemeListeners x) x"

definition startEditor :: "window \<Rightarrow> bool \<Rightarrow> CodeEditor \<Rightarrow> CodeEditor" where
  "startEditor win reloadInlineConfig x =
     (let x1 = syncPropertiesAndEditorConfig win reloadInlineConfig x;
          x2 = x1\<lparr>monacoWrapper := wrapperStartEditor (monacoWrapper x1)\<rparr>
      in registerListeners x2)"

definition updateEditor :: "window \<Rightarrow> bool \<Rightarrow> CodeEditor \<Rightarrow> CodeEditor" where
  "updateEditor win reloadInlineConfig x =
     (let x1 = syncPropertiesAndEditorConfig win reloadInlineConfig x
      in x1\<lparr>monacoWrapper := wrapperUpdateEditor (monacoWrapper x1)\<rparr>)"

definition swapEditors :: "window \<Rightarrow> bool \<Rightarrow> bool \<Rightarrow> CodeEditor \<Rightarrow> CodeEditor" where
  "swapEditors win useDiff reloadInlineConfig x =
     (let x1 = syncPropertiesAndEditorConfig win reloadInlineConfig (x\<lparr>useDiffEditor := Some useDiff\<rparr>)
      in x1\<lparr>monacoWrapper := wrapperSwapEditors (monacoWrapper x1)\<rparr>)"

definition firstUpdated :: "window \<Rightarrow> CodeEditor \<Rightarrow> CodeEditor" where
  "firstUpdated win x = startEditor win True x"

section \<open>Notions used in the statements\<close>

text \<open>The foreign calls made between two states of the wrapper, oldest first.\<close>

definition newEvents :: "wrapper \<Rightarrow> wrapper \<Rightarrow> event list" where
  "newEvents s s' = drop (length (trace s)) (trace s')"


text \<open>The calls to globals and to the console made between two states of the component.\<close>

definition newCalls :: "CodeEditor \<Rightarrow> CodeEditor \<Rightarrow> call list" where
  "newCalls x x' = drop (length (calls x)) (calls x')"

section \<open>Example runs\<close>

text \<open>
  A world in which every foreign call succeeds, and three in which one of the language
  client's own operations fails.
\<close>

definition quietEnv :: env where
  "quietEnv = \<lparr>random = 42, initServicesError = None, editorAppInitError = None,
     createEditorsError = None, socketOpens = True, startError = None, stopError = None,
     disposeError = None\<rparr>"


definition startFailsEnv :: env where
  "startFailsEnv = quietEnv\<lparr>startError := Some ''Error: connection refused''\<rparr>"

definition stopFailsEnv :: env where
  "stopFailsEnv = quietEnv\<lparr>stopError := Some ''Error: connection is closed''\<rparr>"

text \<open>A wrapper on which no method has been called yet.\<close>

definition initialWrapper :: wrapper where
  "initialWrapper = \<lparr>languageClient = None, worker = None, editorApp = None, wrapperId = [],
     htmlElement = 0,
     serviceConfig = \<lparr>enableModelService = None, configureEditorOrViewsServiceConfig = None,
                       configureConfigurationServiceConfig = None\<rparr>,
     languageClientConfig = None, trace = [], fresh = 0, vscodeApiInitialized = False,
     onCloseHandlers = []\<rparr>"

definition workerUserConfig :: UserConfig where
  "workerUserConfig = \<lparr>uc_id = Some ''42'', uc_htmlElement = 1,
     uc_wrapperConfig = \<lparr>wc_serviceConfig = None,
        wc_editorAppConfig = \<lparr>app_type = ClassicApp, app_languageId = ''json'',
          app_useDiffEditor = False, app_codeOriginal = None\<rparr>\<rparr>,
     uc_languageClientConfig = Some \<lparr>lc_options = WorkerConfig ''./worker.js'' Module None,
        initializationOptions = None\<rparr>\<rparr>"

definition socketUserConfig :: UserConfig where
  "socketUserConfig = workerUserConfig\<lparr>uc_languageClientConfig :=
      Some \<lparr>lc_options = WebSocketUrl ''ws://localhost:3000/ls''
               (Some \<lparr>onCall = 1, reportStatusFlag = Some True\<rparr>)
               (Some \<lparr>onCall = 2, reportStatusFlag = None\<rparr>),
        initializationOptions = None\<rparr>\<rparr>"

definition diffUserConfig :: UserConfig where
  "diffUserConfig = workerUserConfig\<lparr>uc_wrapperConfig :=
      \<lparr>wc_serviceConfig = None,
       wc_editorAppConfig = \<lparr>app_type = ClassicApp, app_languageId = ''json'',
          app_useDiffEditor = True, app_codeOriginal = None\<rparr>\<rparr>\<rparr>"

text \<open>
  The wrapper after \<^verbatim>\<open>start\<close> with a worker configuration, after \<^verbatim>\<open>start\<close> with a socket
  configuration, and after the first has disposed its language client keeping the worker.
\<close>

definition workerWrapper :: wrapper where
  "workerWrapper = snd (start quietEnv workerUserConfig initialWrapper)"

definition socketWrapper :: wrapper where
  "socketWrapper = snd (start quietEnv socketUserConfig initialWrapper)"

definition stoppedWrapper :: wrapper where
  "stoppedWrapper = snd (disposeLanguageClient quietEnv (Some True) workerWrapper)"

text \<open>A page with inline-config functions, and a component with the defaults of the class.\<close>

definition exampleOptions :: Options where
  "exampleOptions = \<lparr>opt_code = Some ''{}'', opt_languageId = Some ''json'', opt_modifiedCode = None,
     opt_modifiedLanguageId = None, opt_theme = None\<rparr>"

definition exampleDiffOptions :: Options where
  "exampleDiffOptions = \<lparr>opt_code = None, opt_languageId = None, opt_modifiedCode = Some ''[]'',
     opt_modifiedLanguageId = None, opt_theme = Some ''vs-dark''\<rparr>"

definition exampleWindow :: window where
  "exampleWindow =
     (\<lambda>name. if name = ''getMonacoEditorOptions'' then Some (Function (Some exampleOptions))
             else if name = ''getMonacoEditorOptions42'' then Some (Function (Some exampleDiffOptions))
             else if name = ''getMonacoDiffEditorOptions'' then Some NotAFunction
             else if name = ''getMonacoDiffEditorOptions42'' then Some (Function (Some exampleDiffOptions))
             else None)"

text \<open>A page whose only inline-config function is the plain one for the diff editor.\<close>

definition diffOnlyWindow :: window where
  "diffOnlyWindow =
     (\<lambda>name. if name = ''getMonacoDiffEditorOptions'' then Some (Function (Some exampleDiffOptions))
             else None)"

definition newCodeEditor :: CodeEditor where
  "newCodeEditor =
     \<lparr>code = [], languageId = ''javascript'', modifiedCode = Some [],
      modifiedLanguageId = Some ''javascript'', theme = ''vs-light'',
      enableInlineConfig = Some False, useDiffEditor = Some False, elementId = ''42'',
      children = [],
      monacoWrapper =
        \<lparr>editorConfig = \<lparr>codeOriginal = ([], ''javascript''), codeModified = (''old'', ''javascript''),
                          cfg_theme = ''vs-light'', monacoEditorOptions = None,
                          monacoDiffEditorOptions = None\<rparr>,
         cfg_useDiffEditor = False, editorInstance = None, instancesCreated = 0, pushed = []\<rparr>,
      colorSchemeListeners = 0, calls = []\<rparr>"

definition inlineCodeEditor :: CodeEditor where
  "inlineCodeEditor = newCodeEditor\<lparr>enableInlineConfig := Some True, children := [ScriptElement]\<rparr>"

definition startedCodeEditor :: CodeEditor where
  "startedCodeEditor = firstUpdated exampleWindow newCodeEditor"

section \<open>Evaluating the examples\<close>

lemmas wrapper_defs =
  start_def init_def await_def settle_def truthy_def emit_def isRunning_def
  disposeEditor_def disposeDiffEditor_def newEditorApp_def initServices_def editorAppInit_def
  createEditors_def startLanguageClientConnection_def workerConnection_def socketConnection_def
  handleLanguageClientStart_def createLanguageClient_def callOptions_def socketStartOptions_def
  socketStopOptions_def reportStatus_def render_def getEditor_def getDiffEditor_def
  disposeLanguageClient_def restartLanguageClient_def onCloseHandler_def clientStop_def
  readerClose_def newEvents_def

lemma workerWrapper_eq:
  "workerWrapper =
    \<lparr>languageClient =
       Some \<lparr>clientId = 3, running = True, documentSelector = [''json''],
              clientInitializationOptions = None,
              transports = \<lparr>readerId = 2, channel = WorkerChannel (Worker 1)\<rparr>\<rparr>,
     worker = Some (Worker 1),
     editorApp =
       Some \<lparr>appId = ''42'',
              appConfig = \<lparr>app_type = ClassicApp, app_languageId = ''json'',
                            app_useDiffEditor = False, app_codeOriginal = None\<rparr>,
              appEditor = Some 0, appDiffEditor = None\<rparr>,
     wrapperId = ''42'', htmlElement = 1,
     serviceConfig =
       \<lparr>enableModelService = Some True, configureEditorOrViewsServiceConfig = Some (),
        configureConfigurationServiceConfig = Some ''/tmp/''\<rparr>,
     languageClientConfig =
       Some \<lparr>lc_options = WorkerConfig ''./worker.js'' Module None, initializationOptions = None\<rparr>,
     trace =
       [NewEditorApp ClassicApp ''42'',
        InitServices \<lparr>enableModelService = Some True, configureEditorOrViewsServiceConfig = Some (),
                       configureConfigurationServiceConfig = Some ''/tmp/''\<rparr>,
        EditorAppInit, CreateEditors 1, ConsoleLog ''Starting monaco-languageclient'',
        NewWorker (Worker 1) ''./worker.js'' Module None,
        NewBrowserMessageReader 2 (Worker 1), NewBrowserMessageWriter (Worker 1),
        NewMonacoLanguageClient 3, ClientStart 3],
     fresh = 4, vscodeApiInitialized = True,
     onCloseHandlers = [(2, Some (WorkerConfig ''./worker.js'' Module None))]\<rparr>"
  by (simp add: workerWrapper_def quietEnv_def workerUserConfig_def initialWrapper_def
        wrapper_defs Let_def)

section \<open>The language client\<close>

subsection \<open>Starting a running client, disposing a stopped one\<close>

text \<open>
  Claim C2. When the language client is already running, starting the connection again
  resolves at once with the text \<^verbatim>\<open>monaco-languageclient already running!\<close> and changes
  nothing: no socket, worker, message reader or writer is constructed (the trace of foreign
  calls is the same), and the stored language client is the same.
\<close>

theorem startLanguageClientConnection_already_running:
  assumes "languageClient s = Some c" and "running c"
  shows "startLanguageClientConnection e s = (Resolved ''monaco-languageclient already running!'', s)"
  using assms by (simp add: startLanguageClientConnection_def isRunning_def)

text \<open>
  The wrapper started over a worker: its client runs, and a second connection start leaves it
  as it is.
\<close>

theorem startLanguageClientConnection_already_running_witness:
  "startLanguageClientConnection quietEnv workerWrapper =
     (Resolved ''monaco-languageclient already running!'', workerWrapper)"
  by (rule startLanguageClientConnection_already_running
        [where c = "the (languageClient workerWrapper)"])
     (simp_all add: workerWrapper_eq)

text \<open>
  Claim C4. When there is no language client, or the stored one is not running,
  \<^verbatim>\<open>disposeLanguageClient\<close> returns a promise rejected with the text
  \<^verbatim>\<open>Unable to dispose monaco-languageclient: It is not yet started.\<close>; it raises nothing, and
  the state, with the language client and the worker handle, is unchanged.
\<close>

theorem disposeLanguageClient_not_running_rejects:
  assumes "\<not> isRunning (languageClient s)"
  shows "disposeLanguageClient e keepWorker s =
     (Rejected (Message ''Unable to dispose monaco-languageclient: It is not yet started.''), s)"
  using assms by (cases "languageClient s") (simp_all add: disposeLanguageClient_def isRunning_def)

text \<open>
  Disposing the language client of a wrapper that was never started.
\<close>

theorem disposeLanguageClient_not_running_rejects_witness:
  "disposeLanguageClient quietEnv None initialWrapper =
     (Rejected (Message ''Unable to dispose monaco-languageclient: It is not yet started.''),
      initialWrapper)"
  by (rule disposeLanguageClient_not_running_rejects) (simp add: initialWrapper_def isRunning_def)

subsection \<open>Restarting\<close>

text \<open>
  Claim C1 at a concrete wrapper. The wrapper was started with a \<^verbatim>\<open>WorkerConfig\<close>; its
  client runs over worker 1. \<^verbatim>\<open>restartLanguageClient(undefined, true)\<close> disposes the client and
  does not terminate worker 1, but then assigns \<^verbatim>\<open>this.worker = updatedWorker\<close>, which is
  \<^verbatim>\<open>undefined\<close>: the connection start finds no worker, constructs worker 4 and binds the
  message reader and writer to it. Worker 1 is neither stored nor reused.
\<close>

theorem restartLanguageClient_keepWorker_new_worker:
  "worker workerWrapper = Some (Worker 1) \<and>
   worker (snd (restartLanguageClient quietEnv None (Some True) workerWrapper)) = Some (Worker 4) \<and>
   newEvents workerWrapper (snd (restartLanguageClient quietEnv None (Some True) workerWrapper)) =
     [ClientDispose 3, ConsoleLog ''Re-Starting monaco-languageclient'',
      NewWorker (Worker 4) ''./worker.js'' Module None,
      NewBrowserMessageReader 5 (Worker 4), NewBrowserMessageWriter (Worker 4),
      NewMonacoLanguageClient 6, ClientStart 6]"
  by (simp add: workerWrapper_eq quietEnv_def wrapper_defs Let_def)

subsection \<open>A diff editor without original code\<close>

text \<open>
  Claim C3 says that \<^verbatim>\<open>start\<close> raises synchronously. \<^verbatim>\<open>start\<close> is an \<^verbatim>\<open>async\<close> method: the
  Error raised by \<^verbatim>\<open>init\<close> rejects the promise that \<^verbatim>\<open>start\<close> returns, and the call itself
  raises nothing.
\<close>

theorem start_diff_without_original_not_thrown:
  "fst (start quietEnv diffUserConfig workerWrapper) =
     Rejected (Error ''Use diff editor was used without a valid config.'') \<and>
   fst (start quietEnv diffUserConfig workerWrapper) \<noteq>
     Thrown (Error ''Use diff editor was used without a valid config.'')"
  by (simp add: start_def init_def diffUserConfig_def workerUserConfig_def truthy_def)

text \<open>
  Claim C3, amended. With the diff-editor flag set and an original code that is absent or
  empty, \<^verbatim>\<open>init\<close> raises the Error \<^verbatim>\<open>Use diff editor was used without a valid config.\<close>
  as the first step of \<^verbatim>\<open>start\<close>; the promise returned by \<^verbatim>\<open>start\<close> is rejected with that
  Error, and the state of the wrapper is unchanged: no editor is disposed and none is
  created.
\<close>

theorem start_diff_without_original_rejects:
  assumes "app_useDiffEditor (wc_editorAppConfig (uc_wrapperConfig userConfig))"
    and "\<not> truthy (app_codeOriginal (wc_editorAppConfig (uc_wrapperConfig userConfig)))"
  shows "init e userConfig s = Inl (Error ''Use diff editor was used without a valid config.'') \<and>
         start e userConfig s =
           (Rejected (Error ''Use diff editor was used without a valid config.''), s)"
  using assms by (simp add: start_def init_def)

text \<open>
  A running wrapper is started again with a diff configuration that has no original code.
\<close>

theorem start_diff_without_original_rejects_witness:
  "start quietEnv diffUserConfig workerWrapper =
     (Rejected (Error ''Use diff editor was used without a valid config.''), workerWrapper)"
  using start_diff_without_original_rejects [of diffUserConfig quietEnv workerWrapper]
  by (simp add: diffUserConfig_def workerUserConfig_def truthy_def)

subsection \<open>Restarting with a replacement worker\<close>




text \<open>
  The failing path in general: when the running client's \<^verbatim>\<open>dispose()\<close> is rejected with
  \<open>err\<close>, every restart is rejected with the disposal text, and nothing but the call of
  \<^verbatim>\<open>dispose()\<close> has happened: the stored worker and client are as before.
\<close>

lemma restartLanguageClient_dispose_failure:
  assumes "languageClient s = Some c" and "running c" and "disposeError e = Some err"
  shows "restartLanguageClient e updatedWorker keepWorker s =
           (Rejected (Message (''Disposing the monaco-languageclient resulted in error: '' @ err)),
            emit (ClientDispose (clientId c)) s)"
  using assms by (simp add: restartLanguageClient_def disposeLanguageClient_def await_def)

subsection \<open>A failing start\<close>

lemma handleLanguageClientStart_failure:
  assumes "startError e = Some err" and "editorApp s \<noteq> None"
  shows "fst (handleLanguageClientStart e mt s) =
           Rejected (Message (''monaco-languageclient start was unsuccessful: '' @ err))"
  using assms
  by (auto simp: handleLanguageClientStart_def createLanguageClient_def settle_def Let_def)

lemma handleLanguageClientStart_no_app:
  assumes "editorApp s = None"
  shows "handleLanguageClientStart e mt s = (Pending, s)"
  using assms by (simp add: handleLanguageClientStart_def createLanguageClient_def)

lemma callOptions_trace:
  "\<exists>evs. trace (callOptions opts s) = trace s @ evs"
  by (simp add: callOptions_def emit_def Let_def)

lemma handleLanguageClientStart_trace:
  "\<exists>evs. trace (snd (handleLanguageClientStart e mt s)) = trace s @ evs"
proof (cases "editorApp s")
  case None
  then show ?thesis by (simp add: handleLanguageClientStart_no_app)
next
  case (Some app)
  show ?thesis
  proof (cases "startError e")
    case (Some err)
    with \<open>editorApp s = Some app\<close> show ?thesis
      by (simp add: handleLanguageClientStart_def createLanguageClient_def emit_def Let_def)
  next
    case None
    show ?thesis
    proof (cases "socketStartOptions (map_option lc_options (languageClientConfig s))")
      case None
      with \<open>editorApp s = Some app\<close> \<open>startError e = None\<close> show ?thesis
        by (simp add: handleLanguageClientStart_def createLanguageClient_def emit_def Let_def)
    next
      case (Some opts)
      with \<open>editorApp s = Some app\<close> \<open>startError e = None\<close> show ?thesis
        by (simp add: handleLanguageClientStart_def createLanguageClient_def emit_def Let_def
              callOptions_def)
    qed
  qed
qed

lemma workerConnection_trace:
  "\<exists>evs. trace (snd (workerConnection e s)) = trace s @ evs"
proof (cases "worker s")
  case None
  then show ?thesis by (simp add: workerConnection_def)
next
  case (Some w)
  let ?s1 = "emit (NewBrowserMessageWriter w)
               ((emit (NewBrowserMessageReader (fresh s) w) s)\<lparr>fresh := Suc (fresh s)\<rparr>)"
  let ?mt = "\<lparr>readerId = fresh s, channel = WorkerChannel w\<rparr>"
  obtain evs where "trace (snd (handleLanguageClientStart e ?mt ?s1)) = trace ?s1 @ evs"
    using handleLanguageClientStart_trace by blast
  with Some show ?thesis
    by (simp add: workerConnection_def Let_def emit_def)
qed

lemma workerConnection_failure:
  assumes "startError e = Some err"
    and "ClientStart k \<in> set (drop (length (trace s)) (trace (snd (workerConnection e s))))"
  shows "fst (workerConnection e s) =
           Rejected (Message (''monaco-languageclient start was unsuccessful: '' @ err))"
proof (cases "editorApp s")
  case None
  with assms show ?thesis
    by (cases "worker s")
       (simp_all add: workerConnection_def handleLanguageClientStart_no_app emit_def Let_def)
next
  case (Some app)
  with assms show ?thesis
    by (cases "worker s")
       (simp_all add: workerConnection_def handleLanguageClientStart_failure emit_def Let_def)
qed

lemma socketConnection_failure:
  assumes "startError e = Some err"
    and "ClientStart k \<in> set (drop (length (trace s)) (trace (snd (socketConnection e lc s))))"
  shows "fst (socketConnection e lc s) =
           Rejected (Message (''monaco-languageclient start was unsuccessful: '' @ err))"
proof (cases "editorApp s")
  case None
  with assms show ?thesis
    by (cases "socketOpens e")
       (simp_all add: socketConnection_def handleLanguageClientStart_no_app emit_def Let_def)
next
  case (Some app)
  with assms show ?thesis
    by (cases "socketOpens e")
       (simp_all add: socketConnection_def handleLanguageClientStart_failure emit_def Let_def)
qed

text \<open>
  Claim C6. Whenever a connection start calls the language client's \<^verbatim>\<open>start()\<close> (the call
  \<open>ClientStart\<close> is among the foreign calls it makes) and that call fails with \<open>err\<close>, the
  promise of the connection start is rejected, not resolved, and its reason is the text
  \<^verbatim>\<open>monaco-languageclient start was unsuccessful: \<close> followed by \<open>err\<close>. The later
  \<^verbatim>\<open>resolve(msg)\<close> does not change the settled promise.
\<close>

theorem startLanguageClientConnection_start_failure_rejects:
  assumes "startError e = Some err"
    and "ClientStart k \<in> set (newEvents s (snd (startLanguageClientConnection e s)))"
  shows "fst (startLanguageClientConnection e s) =
           Rejected (Message (''monaco-languageclient start was unsuccessful: '' @ err))"
proof (cases "isRunning (languageClient s)")
  case True
  with assms(2) show ?thesis
    by (simp add: startLanguageClientConnection_def newEvents_def)
next
  case False
  show ?thesis
  proof (cases "languageClientConfig s")
    case None
    with False assms show ?thesis
      by (simp add: startLanguageClientConnection_def newEvents_def workerConnection_failure)
  next
    case (Some cfg)
    show ?thesis
    proof (cases "lc_options cfg")
      case (WebSocket secured host port path startOpts stopOpts)
      with Some False assms show ?thesis
        by (simp add: startLanguageClientConnection_def newEvents_def socketConnection_failure)
    next
      case (WebSocketUrl url startOpts stopOpts)
      with Some False assms show ?thesis
        by (simp add: startLanguageClientConnection_def newEvents_def socketConnection_failure)
    next
      case (WorkerConfig url ty name)
      show ?thesis
      proof (cases "worker s")
        case None
        let ?s1 = "(emit (NewWorker (Worker (fresh s)) url ty name) s)
                     \<lparr>worker := Some (Worker (fresh s)), fresh := Suc (fresh s)\<rparr>"
        from None WorkerConfig Some False
        have eq: "startLanguageClientConnection e s = workerConnection e ?s1"
          by (simp add: startLanguageClientConnection_def)
        obtain evs where evs: "trace (snd (workerConnection e ?s1)) = trace ?s1 @ evs"
          using workerConnection_trace by blast
        have t1: "trace ?s1 = trace s @ [NewWorker (Worker (fresh s)) url ty name]"
          by (simp add: emit_def)
        have "ClientStart k \<in> set (NewWorker (Worker (fresh s)) url ty name # evs)"
          using assms(2) unfolding eq newEvents_def evs t1 by simp
        then have "ClientStart k \<in> set evs"
          by simp
        then have "ClientStart k \<in> set (drop (length (trace ?s1)) (trace (snd (workerConnection e ?s1))))"
          unfolding evs by simp
        with assms(1) show ?thesis
          unfolding eq by (rule workerConnection_failure)
      next
        case (Some w)
        with WorkerConfig \<open>languageClientConfig s = Some cfg\<close> False assms show ?thesis
          by (simp add: startLanguageClientConnection_def newEvents_def workerConnection_failure)
      qed
    next
      case (WorkerDirect w0)
      show ?thesis
      proof (cases "worker s")
        case None
        from None WorkerDirect Some False
        have eq: "startLanguageClientConnection e s = workerConnection e (s\<lparr>worker := Some w0\<rparr>)"
          by (simp add: startLanguageClientConnection_def)
        have "ClientStart k \<in> set (drop (length (trace (s\<lparr>worker := Some w0\<rparr>)))
                 (trace (snd (workerConnection e (s\<lparr>worker := Some w0\<rparr>)))))"
          using assms(2) unfolding eq newEvents_def by simp
        with assms(1) show ?thesis
          unfolding eq by (rule workerConnection_failure)
      next
        case (Some w)
        with WorkerDirect \<open>languageClientConfig s = Some cfg\<close> False assms show ?thesis
          by (simp add: startLanguageClientConnection_def newEvents_def workerConnection_failure)
      qed
    qed
  qed
qed

text \<open>
  A wrapper whose client was disposed starts its connection again while the server refuses.
\<close>

theorem startLanguageClientConnection_start_failure_rejects_witness:
  "ClientStart 5 \<in> set (newEvents stoppedWrapper (snd (startLanguageClientConnection startFailsEnv stoppedWrapper))) \<and>
   fst (startLanguageClientConnection startFailsEnv stoppedWrapper) =
     Rejected (Message ''monaco-languageclient start was unsuccessful: Error: connection refused'')"
proof -
  have ev: "ClientStart 5 \<in> set (newEvents stoppedWrapper
              (snd (startLanguageClientConnection startFailsEnv stoppedWrapper)))"
    by (simp add: stoppedWrapper_def startFailsEnv_def workerWrapper_eq quietEnv_def wrapper_defs Let_def)
  have "startError startFailsEnv = Some ''Error: connection refused''"
    by (simp add: startFailsEnv_def quietEnv_def)
  from startLanguageClientConnection_start_failure_rejects [OF this ev] ev show ?thesis by simp
qed

subsection \<open>The reader closes\<close>

text \<open>
  A connection start that gets as far as creating the language client registers the
  listener on the reader of its transports, with the configuration of that moment.
\<close>

lemma handleLanguageClientStart_registers:
  assumes "editorApp s \<noteq> None"
  shows "map_of (onCloseHandlers (snd (handleLanguageClientStart e mt s))) (readerId mt) =
           Some (map_option lc_options (languageClientConfig s))"
proof (cases "startError e")
  case (Some err)
  with assms show ?thesis
    by (auto simp: handleLanguageClientStart_def createLanguageClient_def emit_def Let_def)
next
  case None
  with assms show ?thesis
    by (cases "socketStartOptions (map_option lc_options (languageClientConfig s))")
       (auto simp: handleLanguageClientStart_def createLanguageClient_def emit_def Let_def
          callOptions_def)
qed

text \<open>
  Claim C7 fails when the language client's \<^verbatim>\<open>stop()\<close> is rejected: the listener awaits it
  before anything else, so the configured \<^verbatim>\<open>stopOptions.onCall\<close> (callback 2 here) is not
  called.
\<close>

theorem readerClose_stop_fails_no_hook:
  "map_of (onCloseHandlers socketWrapper) 2 =
     Some (Some (WebSocketUrl ''ws://localhost:3000/ls''
               (Some \<lparr>onCall = 1, reportStatusFlag = Some True\<rparr>)
               (Some \<lparr>onCall = 2, reportStatusFlag = None\<rparr>))) \<and>
   newEvents socketWrapper (snd (readerClose stopFailsEnv 2 socketWrapper)) = [ClientStop 3] \<and>
   fst (readerClose stopFailsEnv 2 socketWrapper) = Rejected (Error ''Error: connection is closed'')"
  by (simp add: socketWrapper_def socketUserConfig_def workerUserConfig_def initialWrapper_def
        stopFailsEnv_def quietEnv_def wrapper_defs Let_def)

text \<open>
  Claim C7, amended. When a reader closes on which the wrapper has registered its listener,
  and provided \<^verbatim>\<open>stop()\<close> succeeds, the foreign calls made are: \<^verbatim>\<open>stop()\<close> on the language
  client stored at that moment, if there is one; then, if the configuration read at
  registration is socket-based and has \<^verbatim>\<open>stopOptions\<close>, its \<^verbatim>\<open>onCall\<close>; then the status
  report on the console exactly when \<^verbatim>\<open>reportStatus\<close> is \<^verbatim>\<open>true\<close>. Nothing else is called.
\<close>

theorem readerClose_stop_then_hook:
  assumes "map_of (onCloseHandlers s) r = Some lcConfig" and "stopError e = None"
  shows "newEvents s (snd (readerClose e r s)) =
           (case languageClient s of None \<Rightarrow> [] | Some c \<Rightarrow> [ClientStop (clientId c)]) @
           (case socketStopOptions lcConfig of
              None \<Rightarrow> []
            | Some stopOptions \<Rightarrow>
                OnCall (onCall stopOptions) #
                (if reportStatusFlag stopOptions = Some True
                 then [ConsoleLog (join (reportStatus s) [CHR 0x0A])] else []))"
  using assms
  by (cases "languageClient s"; cases "socketStopOptions lcConfig")
     (simp_all add: readerClose_def onCloseHandler_def clientStop_def await_def callOptions_def
        newEvents_def emit_def Let_def reportStatus_def getEditor_def getDiffEditor_def render_def)

text \<open>
  The reader of the socket-based wrapper closes: the client is stopped and callback 2 is
  called; \<^verbatim>\<open>reportStatus\<close> is not set for it, so nothing is logged.
\<close>

theorem readerClose_stop_then_hook_witness:
  "newEvents socketWrapper (snd (readerClose quietEnv 2 socketWrapper)) = [ClientStop 3, OnCall 2]"
  using readerClose_stop_then_hook
          [of socketWrapper 2 "map_option lc_options (languageClientConfig socketWrapper)" quietEnv]
  by (simp add: socketWrapper_def socketUserConfig_def workerUserConfig_def initialWrapper_def
        quietEnv_def wrapper_defs Let_def)

text \<open>
  The failing path in general: \<^verbatim>\<open>stop()\<close> is called on the stored client all the same, its
  rejection ends the listener, and no hook is called.
\<close>

lemma readerClose_stop_failure:
  assumes "map_of (onCloseHandlers s) r = Some lcConfig" and "languageClient s = Some c"
    and "stopError e = Some err"
  shows "readerClose e r s = (Rejected (Error err), emit (ClientStop (clientId c)) s)"
  using assms by (simp add: readerClose_def onCloseHandler_def clientStop_def await_def)

section \<open>The web component\<close>

subsection \<open>Inline-config functions\<close>

lemmas comp_defs =
  getEditorConfig_def withEditorConfig_def setCode_def setLanguageId_def setModifiedCode_def
  setModifiedLanguageId_def setTheme_def isEnableInlineConfig_def isFunction_def callFunction_def
  buildAndCallConfigFunction_def setMonacoEditorOptions_def setMonacoDiffEditorOptions_def
  retrieveMonacoEditorOptions_def retrieveMonacoDiffEditorOptions_def loadInlineConfig_def
  syncPropertiesAndEditorConfig_def colorSchemeListener_def registerListeners_def
  colorSchemeChange_def startEditor_def firstUpdated_def setUseDiffEditor_def updateTheme_def
  wrapperStartEditor_def truthy_def

text \<open>
  Claim C9. When the plain name is a function on the window, it is the one called, once, and
  its result is returned, whatever the id-suffixed name holds. A global of another name is
  called only when the plain name is absent or not a function, and it is then the
  id-suffixed name.
\<close>

theorem buildAndCallConfigFunction_plain_first:
  "(win basename = Some (Function result) \<longrightarrow>
      buildAndCallConfigFunction win basename loggingName x =
        (result,
         x\<lparr>calls := calls x @
              [Log (''Using config supplied by '' @ basename @ '' for '' @ loggingName @ ''.''),
               CallGlobal basename]\<rparr>)) \<and>
   (CallGlobal name \<in> set (newCalls x (snd (buildAndCallConfigFunction win basename loggingName x))) \<and>
    name \<noteq> basename \<longrightarrow>
      \<not> isFunction (win basename) \<and> name = basename @ elementId x \<and> isFunction (win name))"
  by (auto simp: buildAndCallConfigFunction_def callFunction_def isFunction_def newCalls_def Let_def
        split: option.splits WindowValue.splits)

text \<open>
  On the example page both \<^verbatim>\<open>getMonacoEditorOptions\<close> and \<^verbatim>\<open>getMonacoEditorOptions42\<close> are
  functions, and the plain one is called; \<^verbatim>\<open>getMonacoDiffEditorOptions\<close> is not a function,
  and \<^verbatim>\<open>getMonacoDiffEditorOptions42\<close> is called.
\<close>

theorem buildAndCallConfigFunction_plain_first_witness:
  "buildAndCallConfigFunction exampleWindow ''getMonacoEditorOptions'' ''editor'' inlineCodeEditor =
     (Some exampleOptions,
      inlineCodeEditor\<lparr>calls :=
        [Log ''Using config supplied by getMonacoEditorOptions for editor.'',
         CallGlobal ''getMonacoEditorOptions'']\<rparr>) \<and>
   isFunction (exampleWindow ''getMonacoEditorOptions42'') \<and>
   newCalls inlineCodeEditor
     (snd (buildAndCallConfigFunction exampleWindow ''getMonacoDiffEditorOptions'' ''diff editor''
            inlineCodeEditor)) =
     [Log ''Using config supplied by getMonacoDiffEditorOptions42 for diff editor.'',
      CallGlobal ''getMonacoDiffEditorOptions42''] \<and>
   \<not> isFunction (exampleWindow ''getMonacoDiffEditorOptions'')"
  using buildAndCallConfigFunction_plain_first
          [of exampleWindow "''getMonacoEditorOptions''" "Some exampleOptions" "''editor''"
              inlineCodeEditor "''getMonacoEditorOptions42''"]
        buildAndCallConfigFunction_plain_first
          [of exampleWindow "''getMonacoDiffEditorOptions''" None "''diff editor''"
              inlineCodeEditor "''getMonacoDiffEditorOptions42''"]
  by (simp add: exampleWindow_def inlineCodeEditor_def newCodeEditor_def isFunction_def
        newCalls_def buildAndCallConfigFunction_def callFunction_def)

subsection \<open>Synchronising properties and configuration\<close>

lemma setters_modified:
  "modifiedCode (setCode c x) = modifiedCode x"
  "modifiedCode (setLanguageId l x) = modifiedCode x"
  "modifiedCode (setTheme t x) = modifiedCode x"
  "modifiedCode (setModifiedLanguageId l x) = modifiedCode x"
  "modifiedCode (setModifiedCode c x) = Some c"
  "modifiedLanguageId (setCode c x) = modifiedLanguageId x"
  "modifiedLanguageId (setLanguageId l x) = modifiedLanguageId x"
  "modifiedLanguageId (setTheme t x) = modifiedLanguageId x"
  "modifiedLanguageId (setModifiedCode c x) = modifiedLanguageId x"
  "modifiedLanguageId (setModifiedLanguageId l x) = Some l"
  "modifiedCode (withEditorConfig f x) = modifiedCode x"
  "modifiedLanguageId (withEditorConfig f x) = modifiedLanguageId x"
  by (simp_all add: setCode_def setLanguageId_def setTheme_def setModifiedCode_def
        setModifiedLanguageId_def withEditorConfig_def)

lemma setters_codeModified:
  "codeModified (getEditorConfig (setCode c x)) = codeModified (getEditorConfig x)"
  "codeModified (getEditorConfig (setLanguageId l x)) = codeModified (getEditorConfig x)"
  "codeModified (getEditorConfig (setTheme t x)) = codeModified (getEditorConfig x)"
  "codeModified (getEditorConfig (setModifiedCode c x)) = (c, snd (codeModified (getEditorConfig x)))"
  "codeModified (getEditorConfig (setModifiedLanguageId l x)) = (fst (codeModified (getEditorConfig x)), l)"
  by (simp_all add: setCode_def setLanguageId_def setTheme_def setModifiedCode_def
        setModifiedLanguageId_def withEditorConfig_def getEditorConfig_def)

lemma setMonacoEditorOptions_modified:
  "modifiedCode (setMonacoEditorOptions options x) = modifiedCode x \<and>
   modifiedLanguageId (setMonacoEditorOptions options x) = modifiedLanguageId x \<and>
   codeModified (getEditorConfig (setMonacoEditorOptions options x)) = codeModified (getEditorConfig x)"
proof (cases options)
  case None
  then show ?thesis by (simp add: setMonacoEditorOptions_def)
next
  case (Some opts)
  have cfg: "\<And>y. codeModified (getEditorConfig
                 (withEditorConfig (\<lambda>cfg. cfg\<lparr>monacoEditorOptions := Some opts\<rparr>) y)) =
               codeModified (getEditorConfig y)"
    by (simp add: withEditorConfig_def getEditorConfig_def)
  from Some show ?thesis
    by (simp add: setMonacoEditorOptions_def Let_def setters_modified setters_codeModified cfg)
qed

lemma setMonacoDiffEditorOptions_modified:
  "(\<not> truthy (modifiedCode (setMonacoDiffEditorOptions options x)) \<longrightarrow>
      fst (codeModified (getEditorConfig (setMonacoDiffEditorOptions options x))) =
      fst (codeModified (getEditorConfig x))) \<and>
   (\<not> truthy (modifiedLanguageId (setMonacoDiffEditorOptions options x)) \<longrightarrow>
      snd (codeModified (getEditorConfig (setMonacoDiffEditorOptions options x))) =
      snd (codeModified (getEditorConfig x)))"
proof (cases options)
  case None
  then show ?thesis by (simp add: setMonacoDiffEditorOptions_def)
next
  case (Some opts)
  have cfg: "\<And>y. codeModified (getEditorConfig
                 (withEditorConfig (\<lambda>cfg. cfg\<lparr>monacoDiffEditorOptions := Some opts\<rparr>) y)) =
               codeModified (getEditorConfig y)"
    by (simp add: withEditorConfig_def getEditorConfig_def)
  have tr: "\<And>v. truthy v \<Longrightarrow> truthy (Some (the v))"
    by (simp add: truthy_def split: option.splits)
  from Some show ?thesis
    by (auto simp: setMonacoDiffEditorOptions_def Let_def setters_modified setters_codeModified cfg
          dest: tr)
qed

lemma callFunction_calls:
  "snd (callFunction win name l x) = x\<lparr>calls := calls (snd (callFunction win name l x))\<rparr>"
  by (simp add: callFunction_def split: option.splits WindowValue.splits)

lemma buildAndCallConfigFunction_calls:
  "snd (buildAndCallConfigFunction win b l x) =
     x\<lparr>calls := calls (snd (buildAndCallConfigFunction win b l x))\<rparr>"
  using callFunction_calls [of win b l x] callFunction_calls [of win "b @ elementId x" l x]
  by (simp add: buildAndCallConfigFunction_def Let_def)

lemma buildAndCallConfigFunction_frame:
  "modifiedCode (snd (buildAndCallConfigFunction win b l x)) = modifiedCode x \<and>
   modifiedLanguageId (snd (buildAndCallConfigFunction win b l x)) = modifiedLanguageId x \<and>
   getEditorConfig (snd (buildAndCallConfigFunction win b l x)) = getEditorConfig x \<and>
   isEnableInlineConfig (snd (buildAndCallConfigFunction win b l x)) = isEnableInlineConfig x"
proof -
  obtain cs where "snd (buildAndCallConfigFunction win b l x) = x\<lparr>calls := cs\<rparr>"
    using buildAndCallConfigFunction_calls by blast
  then show ?thesis
    by (simp add: getEditorConfig_def isEnableInlineConfig_def split: list.splits)
qed

lemma retrieveMonacoEditorOptions_modified:
  "modifiedCode (retrieveMonacoEditorOptions win x) = modifiedCode x \<and>
   modifiedLanguageId (retrieveMonacoEditorOptions win x) = modifiedLanguageId x \<and>
   codeModified (getEditorConfig (retrieveMonacoEditorOptions win x)) = codeModified (getEditorConfig x)"
proof (cases "isEnableInlineConfig x")
  case False
  then show ?thesis by (simp add: retrieveMonacoEditorOptions_def)
next
  case True
  obtain options x1 where b:
    "buildAndCallConfigFunction win ''getMonacoEditorOptions'' ''editor'' x = (options, x1)"
    by (cases "buildAndCallConfigFunction win ''getMonacoEditorOptions'' ''editor'' x")
  from buildAndCallConfigFunction_frame [of win "''getMonacoEditorOptions''" "''editor''" x] b
  have "getEditorConfig x1 = getEditorConfig x" "modifiedCode x1 = modifiedCode x"
       "modifiedLanguageId x1 = modifiedLanguageId x"
    by simp_all
  with True b setMonacoEditorOptions_modified [of options x1] show ?thesis
    by (simp add: retrieveMonacoEditorOptions_def)
qed

lemma retrieveMonacoDiffEditorOptions_modified:
  "(\<not> truthy (modifiedCode (retrieveMonacoDiffEditorOptions win x)) \<longrightarrow>
      fst (codeModified (getEditorConfig (retrieveMonacoDiffEditorOptions win x))) =
      fst (codeModified (getEditorConfig x))) \<and>
   (\<not> truthy (modifiedLanguageId (retrieveMonacoDiffEditorOptions win x)) \<longrightarrow>
      snd (codeModified (getEditorConfig (retrieveMonacoDiffEditorOptions win x))) =
      snd (codeModified (getEditorConfig x)))"
proof (cases "isEnableInlineConfig x")
  case False
  then show ?thesis by (simp add: retrieveMonacoDiffEditorOptions_def)
next
  case True
  obtain options x1 where b:
    "buildAndCallConfigFunction win ''getMonacoDiffEditorOptions'' ''diff editor'' x = (options, x1)"
    by (cases "buildAndCallConfigFunction win ''getMonacoDiffEditorOptions'' ''diff editor'' x")
  from buildAndCallConfigFunction_frame [of win "''getMonacoDiffEditorOptions''" "''diff editor''" x] b
  have "getEditorConfig x1 = getEditorConfig x"
    by simp
  with True b setMonacoDiffEditorOptions_modified [of options x1] show ?thesis
    by (simp add: retrieveMonacoDiffEditorOptions_def)
qed

lemma loadInlineConfig_modified:
  "(\<not> truthy (modifiedCode (loadInlineConfig win x)) \<longrightarrow>
      fst (codeModified (getEditorConfig (loadInlineConfig win x))) =
      fst (codeModified (getEditorConfig x))) \<and>
   (\<not> truthy (modifiedLanguageId (loadInlineConfig win x)) \<longrightarrow>
      snd (codeModified (getEditorConfig (loadInlineConfig win x))) =
      snd (codeModified (getEditorConfig x)))"
  using retrieveMonacoDiffEditorOptions_modified [of win "retrieveMonacoEditorOptions win x"]
        retrieveMonacoEditorOptions_modified [of win x]
  by (simp add: loadInlineConfig_def)

lemma sync_after_load:
  "syncPropertiesAndEditorConfig win reload x =
     (let x1 = (if reload then loadInlineConfig win x else x) in
      x1\<lparr>monacoWrapper := (monacoWrapper x1)
           \<lparr>editorConfig := (editorConfig (monacoWrapper x1))
               \<lparr>codeOriginal := (code x1, languageId x1),
                codeModified :=
                  (if truthy (modifiedCode x1) then the (modifiedCode x1)
                   else fst (codeModified (editorConfig (monacoWrapper x1))),
                   if truthy (modifiedLanguageId x1) then the (modifiedLanguageId x1)
                   else snd (codeModified (editorConfig (monacoWrapper x1)))),
                cfg_theme := theme x1\<rparr>,
            cfg_useDiffEditor := (useDiffEditor x1 = Some True)\<rparr>\<rparr>)"
  by (auto simp: syncPropertiesAndEditorConfig_def withEditorConfig_def setUseDiffEditor_def Let_def
        split: option.splits bool.splits)

text \<open>
  The inline configuration is read on the example component: it is enabled, the page has no
  \<^verbatim>\<open>getMonacoEditorOptions\<close>, and \<^verbatim>\<open>getMonacoDiffEditorOptions\<close> returns a record with
  \<^verbatim>\<open>modifiedCode\<close> set, which \<^verbatim>\<open>setModifiedCode\<close> stores in the property and in the slot.
\<close>

lemma inlineCodeEditor_enabled: "isEnableInlineConfig inlineCodeEditor"
  by (simp add: isEnableInlineConfig_def inlineCodeEditor_def newCodeEditor_def)

lemma retrieveMonacoEditorOptions_diffOnlyWindow:
  "retrieveMonacoEditorOptions diffOnlyWindow inlineCodeEditor = inlineCodeEditor"
  by (simp add: retrieveMonacoEditorOptions_def buildAndCallConfigFunction_def isFunction_def
        diffOnlyWindow_def setMonacoEditorOptions_def Let_def)

lemma buildAndCallConfigFunction_diffOnlyWindow:
  "buildAndCallConfigFunction diffOnlyWindow ''getMonacoDiffEditorOptions'' ''diff editor''
     inlineCodeEditor =
   (Some exampleDiffOptions,
    inlineCodeEditor\<lparr>calls := calls inlineCodeEditor @
       [Log ''Using config supplied by getMonacoDiffEditorOptions for diff editor.'',
        CallGlobal ''getMonacoDiffEditorOptions'']\<rparr>)"
  by (simp add: buildAndCallConfigFunction_def callFunction_def isFunction_def diffOnlyWindow_def
        Let_def)

lemma loadInlineConfig_diffOnlyWindow:
  "modifiedCode (loadInlineConfig diffOnlyWindow inlineCodeEditor) = Some ''[]''"
  by (simp add: loadInlineConfig_def inlineCodeEditor_enabled
        retrieveMonacoEditorOptions_diffOnlyWindow retrieveMonacoDiffEditorOptions_def
        buildAndCallConfigFunction_diffOnlyWindow setMonacoDiffEditorOptions_def
        exampleDiffOptions_def truthy_def Let_def setters_modified)

text \<open>
  Claim C10 speaks of the \<^verbatim>\<open>modifiedCode\<close> property of the component being synchronised.
  A synchronisation that reloads the inline configuration can itself set that property: the
  component below has the empty \<^verbatim>\<open>modifiedCode\<close> and the slot \<^verbatim>\<open>old\<close> before the call, and
  the slot \<^verbatim>\<open>[]\<close> after it.
\<close>

theorem syncPropertiesAndEditorConfig_reload_overwrites:
  "\<not> truthy (modifiedCode inlineCodeEditor) \<and>
   fst (codeModified (getEditorConfig inlineCodeEditor)) = ''old'' \<and>
   fst (codeModified (getEditorConfig
          (syncPropertiesAndEditorConfig diffOnlyWindow True inlineCodeEditor))) = ''[]''"
proof -
  have a: "\<not> truthy (modifiedCode inlineCodeEditor)"
    by (simp add: inlineCodeEditor_def newCodeEditor_def truthy_def)
  have b: "fst (codeModified (getEditorConfig inlineCodeEditor)) = ''old''"
    by (simp add: inlineCodeEditor_def newCodeEditor_def getEditorConfig_def)
  have c: "fst (codeModified (getEditorConfig
          (syncPropertiesAndEditorConfig diffOnlyWindow True inlineCodeEditor))) = ''[]''"
    by (simp add: sync_after_load Let_def getEditorConfig_def loadInlineConfig_diffOnlyWindow
          truthy_def)
  from a b c show ?thesis by simp
qed

text \<open>
  Claim C10, amended. After \<^verbatim>\<open>syncPropertiesAndEditorConfig\<close> the configuration holds the
  component's code, language id and theme, and the diff-editor flag (\<^verbatim>\<open>false\<close> when the
  property is unset). When the \<^verbatim>\<open>modifiedCode\<close> property is \<^verbatim>\<open>undefined\<close> or empty at the
  moment the method reads it, that is, after the reload of the inline configuration if one
  was asked for, the modified-code slot of the configuration is the one from before the call;
  likewise for \<^verbatim>\<open>modifiedLanguageId\<close> and the modified-language slot. Without a reload the
  properties read are those of the component at the call: the method changes nothing but the
  wrapper's configuration.
\<close>

theorem syncPropertiesAndEditorConfig_frame:
  "codeOriginal (getEditorConfig (syncPropertiesAndEditorConfig win reload x)) =
     (code (syncPropertiesAndEditorConfig win reload x),
      languageId (syncPropertiesAndEditorConfig win reload x)) \<and>
   cfg_theme (getEditorConfig (syncPropertiesAndEditorConfig win reload x)) =
     theme (syncPropertiesAndEditorConfig win reload x) \<and>
   cfg_useDiffEditor (monacoWrapper (syncPropertiesAndEditorConfig win reload x)) =
     (useDiffEditor (syncPropertiesAndEditorConfig win reload x) = Some True) \<and>
   (\<not> truthy (modifiedCode (syncPropertiesAndEditorConfig win reload x)) \<longrightarrow>
      fst (codeModified (getEditorConfig (syncPropertiesAndEditorConfig win reload x))) =
      fst (codeModified (getEditorConfig x))) \<and>
   (\<not> truthy (modifiedLanguageId (syncPropertiesAndEditorConfig win reload x)) \<longrightarrow>
      snd (codeModified (getEditorConfig (syncPropertiesAndEditorConfig win reload x))) =
      snd (codeModified (getEditorConfig x))) \<and>
   (\<not> reload \<longrightarrow>
      (syncPropertiesAndEditorConfig win reload x)\<lparr>monacoWrapper := monacoWrapper x\<rparr> = x)"
  using loadInlineConfig_modified [of win x]
  by (simp add: sync_after_load Let_def getEditorConfig_def)

text \<open>
  A component with \<^verbatim>\<open>code="x"\<close>, \<^verbatim>\<open>language-id="json"\<close> and an empty \<^verbatim>\<open>modifiedCode\<close>: the
  modified code of the configuration stays \<^verbatim>\<open>old\<close>.
\<close>

theorem syncPropertiesAndEditorConfig_frame_witness:
  "\<not> truthy (modifiedCode newCodeEditor) \<and>
   getEditorConfig (syncPropertiesAndEditorConfig exampleWindow False
      (newCodeEditor\<lparr>code := ''x'', languageId := ''json''\<rparr>)) =
     \<lparr>codeOriginal = (''x'', ''json''), codeModified = (''old'', ''javascript''),
      cfg_theme = ''vs-light'', monacoEditorOptions = None, monacoDiffEditorOptions = None\<rparr>"
proof -
  let ?x = "newCodeEditor\<lparr>code := ''x'', languageId := ''json''\<rparr>"
  let ?y = "syncPropertiesAndEditorConfig exampleWindow False ?x"
  have y: "?y = ?x\<lparr>monacoWrapper := (monacoWrapper ?x)
               \<lparr>editorConfig := \<lparr>codeOriginal = (''x'', ''json''),
                    codeModified = (''old'', ''javascript''), cfg_theme = ''vs-light'',
                    monacoEditorOptions = None, monacoDiffEditorOptions = None\<rparr>\<rparr>\<rparr>"
    by (simp add: sync_after_load newCodeEditor_def truthy_def)
  have f: "\<not> truthy (modifiedCode ?y)"
    unfolding y by (simp add: newCodeEditor_def truthy_def)
  have n: "\<not> truthy (modifiedCode newCodeEditor)"
    by (simp add: newCodeEditor_def truthy_def)
  from syncPropertiesAndEditorConfig_frame [of exampleWindow False ?x] f
  have "fst (codeModified (getEditorConfig ?y)) = fst (codeModified (getEditorConfig ?x))"
    by blast
  moreover have "getEditorConfig ?y =
     \<lparr>codeOriginal = (''x'', ''json''), codeModified = (''old'', ''javascript''),
      cfg_theme = ''vs-light'', monacoEditorOptions = None, monacoDiffEditorOptions = None\<rparr>"
    unfolding y by (simp add: getEditorConfig_def)
  ultimately show ?thesis
    using n by simp
qed

subsection \<open>The colour scheme changes\<close>

lemma listener_iter:
  "pushed (monacoWrapper ((colorSchemeListener m ^^ n) x)) =
     pushed (monacoWrapper x) @ replicate n (ThemeUpdate (if m then ''vs-dark'' else ''vs-light'')) \<and>
   editorInstance (monacoWrapper ((colorSchemeListener m ^^ n) x)) = editorInstance (monacoWrapper x) \<and>
   instancesCreated (monacoWrapper ((colorSchemeListener m ^^ n) x)) = instancesCreated (monacoWrapper x) \<and>
   (0 < n \<longrightarrow> theme ((colorSchemeListener m ^^ n) x) = (if m then ''vs-dark'' else ''vs-light'') \<and>
      cfg_theme (getEditorConfig ((colorSchemeListener m ^^ n) x)) = (if m then ''vs-dark'' else ''vs-light''))"
proof (induction n)
  case 0
  then show ?case by simp
next
  case (Suc n)
  then show ?case
    by (simp add: colorSchemeListener_def setTheme_def withEditorConfig_def updateTheme_def
          getEditorConfig_def Let_def replicate_append_same)
qed

text \<open>
  Claim C8. After \<^verbatim>\<open>registerListeners\<close> has run at least once, a change event of the
  colour-scheme media query sets the \<^verbatim>\<open>theme\<close> property, and the theme of the configuration,
  to \<^verbatim>\<open>vs-dark\<close> when dark is preferred and to \<^verbatim>\<open>vs-light\<close> otherwise; each registered
  listener pushes one theme-only update; the editor instance is the same as before and none
  is created.
\<close>

theorem colorSchemeChange_theme:
  assumes "0 < colorSchemeListeners x"
  shows "theme (colorSchemeChange matches x) = (if matches then ''vs-dark'' else ''vs-light'') \<and>
         cfg_theme (getEditorConfig (colorSchemeChange matches x)) =
           (if matches then ''vs-dark'' else ''vs-light'') \<and>
         pushed (monacoWrapper (colorSchemeChange matches x)) =
           pushed (monacoWrapper x) @
           replicate (colorSchemeListeners x)
             (ThemeUpdate (if matches then ''vs-dark'' else ''vs-light'')) \<and>
         editorInstance (monacoWrapper (colorSchemeChange matches x)) = editorInstance (monacoWrapper x) \<and>
         instancesCreated (monacoWrapper (colorSchemeChange matches x)) =
           instancesCreated (monacoWrapper x)"
  using assms listener_iter [where m = matches and n = "colorSchemeListeners x" and x = x]
  by (simp add: colorSchemeChange_def)

lemma startedCodeEditor_eq:
  "startedCodeEditor =
     newCodeEditor\<lparr>monacoWrapper :=
        \<lparr>editorConfig = \<lparr>codeOriginal = ([], ''javascript''), codeModified = (''old'', ''javascript''),
                          cfg_theme = ''vs-light'', monacoEditorOptions = None,
                          monacoDiffEditorOptions = None\<rparr>,
         cfg_useDiffEditor = False, editorInstance = Some 0, instancesCreated = 1, pushed = []\<rparr>,
      colorSchemeListeners := 1\<rparr>"
  by (simp add: startedCodeEditor_def firstUpdated_def startEditor_def registerListeners_def
        wrapperStartEditor_def sync_after_load loadInlineConfig_def isEnableInlineConfig_def
        newCodeEditor_def truthy_def Let_def)

text \<open>
  A component after its first update has one listener; when the system switches to dark, its
  theme becomes \<^verbatim>\<open>vs-dark\<close>, one theme update is pushed, and the editor instance is still
  instance 0.
\<close>

theorem colorSchemeChange_theme_witness:
  "0 < colorSchemeListeners startedCodeEditor \<and>
   theme startedCodeEditor = ''vs-light'' \<and>
   theme (colorSchemeChange True startedCodeEditor) = ''vs-dark'' \<and>
   pushed (monacoWrapper (colorSchemeChange True startedCodeEditor)) = [ThemeUpdate ''vs-dark''] \<and>
   editorInstance (monacoWrapper (colorSchemeChange True startedCodeEditor)) = Some 0"
proof -
  have l: "0 < colorSchemeListeners startedCodeEditor"
    by (simp add: startedCodeEditor_eq)
  from colorSchemeChange_theme [OF l, of True] show ?thesis
    by (simp add: startedCodeEditor_eq newCodeEditor_def)
qed

end
